theory Spec2Isabelle
  imports Complex_Main
begin

section \<open>Data model of monitor\_api.py\<close>

text \<open>
  A Python \<open>str\<close> is modelled as a HOL \<open>string\<close> holding its UTF-8 bytes. The literals of
  the source that leave ASCII use three code points only.
\<close>

abbreviation c_cedilla :: string where
  "c_cedilla \<equiv> [CHR 0xC3, CHR 0xA7]"

abbreviation a_tilde :: string where
  "a_tilde \<equiv> [CHR 0xC3, CHR 0xA3]"

abbreviation check_mark :: string where
  "check_mark \<equiv> [CHR 0xE2, CHR 0x9C, CHR 0x85]"

text \<open>
  One value of the dictionary \<open>SERVICES\<close>: the keys \<open>"name"\<close>, \<open>"url"\<close> and
  \<open>"interval"\<close>.
\<close>

record config =
  cfg_name :: string
  cfg_url :: string
  cfg_interval :: int

text \<open>
  The dictionary that \<open>check_service\<close> returns: the keys \<open>"status"\<close>,
  \<open>"response_time"\<close> and \<open>"error_message"\<close>.
\<close>

record result =
  status :: string
  response_time :: real
  error_message :: string

text \<open>
  One value of the global dictionary \<open>service_status\<close>: the keys \<open>"name"\<close>, \<open>"url"\<close>,
  \<open>"status"\<close>, \<open>"last_check"\<close>, \<open>"response_time"\<close> and \<open>"error_message"\<close>.
\<close>

record entry =
  entry_name :: string
  entry_url :: string
  entry_status :: string
  last_check :: string
  entry_response_time :: real
  entry_error_message :: string

text \<open>
  One call of \<open>send_whatsapp_alert(service_name, status, error)\<close>, with its three
  arguments.
\<close>

record alert =
  service_name :: string
  alert_status :: string
  alert_error :: string

section \<open>The monitoring loop\<close>

text \<open>
  The state of one \<open>monitor_service\<close> coroutine: its two local variables, the global
  dictionary \<open>service_status\<close> it writes to, and the calls of \<open>send_whatsapp_alert\<close>
  it has made so far, oldest first.
\<close>

record loop_state =
  previous_status :: string
  consecutive_failures :: int
  service_status :: "string \<rightharpoonup> entry"
  alerts :: "alert list"

text \<open>
  What one iteration of the loop reads from outside: the dictionary that
  \<open>check_service\<close> returned, and the text of \<open>datetime.now().isoformat()\<close> at the
  registry write.
\<close>

record cycle =
  probe :: result
  now_iso :: string

definition send_whatsapp_alert :: "string \<Rightarrow> string \<Rightarrow> string \<Rightarrow> loop_state \<Rightarrow> loop_state" where
  "send_whatsapp_alert name st err s =
     s\<lparr>alerts := alerts s @ [\<lparr>service_name = name, alert_status = st, alert_error = err\<rparr>]\<rparr>"

text \<open>
  The body of \<open>while True\<close> in \<open>monitor_service\<close>, from the registry write to the
  assignment of \<open>previous_status\<close>. The \<open>print\<close> calls and the final
  \<open>asyncio.sleep\<close> change nothing of the state.
\<close>

definition monitor_cycle :: "string \<Rightarrow> config \<Rightarrow> cycle \<Rightarrow> loop_state \<Rightarrow> loop_state" where
  "monitor_cycle service_id config c s =
     (let result = probe c;
          current_status = status result;
          s1 = s\<lparr>service_status := (service_status s)(service_id \<mapsto>
                 \<lparr>entry_name = cfg_name config,
                  entry_url = cfg_url config,
                  entry_status = current_status,
                  last_check = now_iso c,
                  entry_response_time = response_time result,
                  entry_error_message = error_message result\<rparr>)\<rparr>;
          s4 =
            (if current_status \<noteq> ''online'' then
               (let s2 = s1\<lparr>consecutive_failures := consecutive_failures s1 + 1\<rparr>
                in if consecutive_failures s2 = 2 \<and> previous_status s2 = ''online''
                   then send_whatsapp_alert (cfg_name config) current_status (error_message result) s2
                   else s2)
             else
               (let s3 = (if previous_status s1 \<noteq> ''online'' \<and> consecutive_failures s1 \<ge> 2
                          then send_whatsapp_alert (cfg_name config) ''online''
                                 (''Servi'' @ c_cedilla @ ''o recuperado '' @ check_mark) s1
                          else s1)
                in s3\<lparr>consecutive_failures := 0\<rparr>))
      in s4\<lparr>previous_status := current_status\<rparr>)"

text \<open>
  The loop never ends; a run is its first \<open>length cs\<close> iterations, one per element of
  \<open>cs\<close>, each carried to its end: an iteration that an exception leaves (out of
  \<open>check_service\<close>, or out of a \<open>print\<close>) ends the coroutine and belongs to no run.
\<close>

fun monitor_loop :: "string \<Rightarrow> config \<Rightarrow> cycle list \<Rightarrow> loop_state \<Rightarrow> loop_state" where
  "monitor_loop service_id config [] s = s"
| "monitor_loop service_id config (c # cs) s =
     monitor_loop service_id config cs (monitor_cycle service_id config c s)"

definition monitor_service ::
    "string \<Rightarrow> config \<Rightarrow> (string \<rightharpoonup> entry) \<Rightarrow> cycle list \<Rightarrow> loop_state" where
  "monitor_service service_id config registry cs =
     monitor_loop service_id config cs
       \<lparr>previous_status = ''online'', consecutive_failures = 0,
        service_status = registry, alerts = []\<rparr>"

text \<open>
  \<open>reading st d err t\<close> is the cycle in which \<open>check_service\<close> returned status
  \<open>st\<close>, duration \<open>d\<close> and error text \<open>err\<close>, and the clock read \<open>t\<close>.
\<close>

definition reading :: "string \<Rightarrow> real \<Rightarrow> string \<Rightarrow> string \<Rightarrow> cycle" where
  "reading st d err t =
     \<lparr>probe = \<lparr>status = st, response_time = d, error_message = err\<rparr>, now_iso = t\<rparr>"

text \<open>
  A call of \<open>send_whatsapp_alert\<close> reports an outage when its status argument is not
  \<open>"online"\<close> (the failure branch passes \<open>current_status\<close>, which is not \<open>"online"\<close>
  there), and a recovery when it is (the other branch passes the literal).
\<close>

definition down_alerts :: "alert list \<Rightarrow> alert list" where
  "down_alerts as = filter (\<lambda>a. alert_status a \<noteq> ''online'') as"

definition recovery_alerts :: "alert list \<Rightarrow> alert list" where
  "recovery_alerts as = filter (\<lambda>a. alert_status a = ''online'') as"

section \<open>The prober\<close>

text \<open>
  A \<open>datetime\<close> is a number of microseconds, and \<open>total_seconds\<close> of the difference of
  two of them is that number divided by \<open>10\<^sup>6\<close>; the rounding of Python's \<open>float\<close> is
  not modelled.
\<close>

type_synonym datetime = int

definition total_seconds :: "int \<Rightarrow> real" where
  "total_seconds td = real_of_int td / 1000000"

text \<open>
  What an awaited call can raise. An exception is given by the most specific of the classes
  the handlers of the source tell apart, and by its text \<open>str(e)\<close>. The class
  \<open>BaseException\<close> stands for what is not an instance of \<open>Exception\<close> (the cancellation of
  the coroutine, the exit of the interpreter).
\<close>

datatype exn_class = TimeoutException | ConnectError | Exception | BaseException

datatype exn = Exn (class_of: exn_class) (str: string)

definition isinstance_Exception :: "exn \<Rightarrow> bool" where
  "isinstance_Exception e = (class_of e \<noteq> BaseException)"

text \<open>What an HTTP call gives back: the fields of the response that the source reads.\<close>

record response =
  status_code :: int
  response_text :: string

datatype 'a outcome = Returns 'a | Raises exn

text \<open>Python's \<open>str\<close> of an integer, as the f-strings of the source apply it.\<close>

function str_nat :: "nat \<Rightarrow> string" where
  "str_nat n =
     (if n < 10 then [''0123456789'' ! n]
      else str_nat (n div 10) @ [''0123456789'' ! (n mod 10)])"
  by pat_completeness auto
termination
  by (relation "measure id") auto

declare str_nat.simps [simp del]

definition str_int :: "int \<Rightarrow> string" where
  "str_int i = (if i < 0 then ''-'' @ str_nat (nat (- i)) else str_nat (nat i))"

text \<open>
  \<open>check_service\<close>. The clock is read at \<open>start_time\<close> before the \<open>try\<close> block and at
  \<open>end_time\<close> once the request has answered or raised; \<open>get\<close> is the network, from the
  URL requested to what \<open>client.get\<close> (with its timeout of 10 seconds, following
  redirects) gives. The value is \<open>Inr\<close> of the dictionary returned, or \<open>Inl\<close> of the
  exception that leaves the function.
\<close>

definition check_service ::
    "string \<Rightarrow> config \<Rightarrow> datetime \<Rightarrow> datetime \<Rightarrow> (string \<Rightarrow> response outcome) \<Rightarrow> exn + result" where
  "check_service service_id config start_time end_time get =
     (case get (cfg_url config) of
        Returns response \<Rightarrow>
          (let response_time = total_seconds (end_time - start_time)
           in if status_code response = 200 then
                Inr \<lparr>status = ''online'', response_time = response_time, error_message = []\<rparr>
              else
                Inr \<lparr>status = ''error'', response_time = response_time,
                     error_message = ''HTTP '' @ str_int (status_code response)\<rparr>)
      | Raises e \<Rightarrow>
          if class_of e = TimeoutException then
            Inr \<lparr>status = ''offline'', response_time = total_seconds (end_time - start_time),
                 error_message = ''Timeout - Servi'' @ c_cedilla @ ''o n'' @ a_tilde @ ''o respondeu''\<rparr>
          else if class_of e = ConnectError then
            Inr \<lparr>status = ''offline'', response_time = total_seconds (end_time - start_time),
                 error_message = ''Erro de conex'' @ a_tilde @ ''o - Servi'' @ c_cedilla @ ''o offline''\<rparr>
          else if isinstance_Exception e then
            Inr \<lparr>status = ''offline'', response_time = total_seconds (end_time - start_time),
                 error_message = ''Erro: '' @ str e\<rparr>
          else Inl e)"

section \<open>The notifier\<close>

text \<open>
  The four settings read from the environment when the module is loaded; a variable that is
  not set gives the default.
\<close>

definition getenv :: "(string \<rightharpoonup> string) \<Rightarrow> string \<Rightarrow> string \<Rightarrow> string" where
  "getenv environ key dflt = (case environ key of None \<Rightarrow> dflt | Some v \<Rightarrow> v)"

definition EVOLUTION_API_URL :: "(string \<rightharpoonup> string) \<Rightarrow> string" where
  "EVOLUTION_API_URL environ = getenv environ ''WHATSAPP_API_URL'' []"

definition EVOLUTION_INSTANCE :: "(string \<rightharpoonup> string) \<Rightarrow> string" where
  "EVOLUTION_INSTANCE environ = getenv environ ''WHATSAPP_INSTANCE'' ''monitor-julgados-2''"

definition EVOLUTION_API_KEY :: "(string \<rightharpoonup> string) \<Rightarrow> string" where
  "EVOLUTION_API_KEY environ = getenv environ ''WHATSAPP_API_KEY'' []"

definition WHATSAPP_PHONE :: "(string \<rightharpoonup> string) \<Rightarrow> string" where
  "WHATSAPP_PHONE environ = getenv environ ''WHATSAPP_PHONE'' []"

text \<open>The POST request that \<open>send_whatsapp_evolution\<close> builds.\<close>

record request =
  req_url :: string
  payload_number :: string
  payload_text :: string
  header_apikey :: string
  header_content_type :: string

text \<open>The two signs, besides the check mark, that the messages printed by the notifier start with.\<close>

abbreviation warning_sign :: string where
  "warning_sign \<equiv> [CHR 0xE2, CHR 0x9A, CHR 0xA0, CHR 0xEF, CHR 0xB8, CHR 0x8F]"

abbreviation cross_mark :: string where
  "cross_mark \<equiv> [CHR 0xE2, CHR 0x9D, CHR 0x8C]"

text \<open>
  One call of \<open>print\<close> followed by the rest of the block. \<open>console\<close> is the standard
  output, from the text printed to what \<open>print\<close> gives: it returns, or it raises (an
  encoding error on the signs above, a closed pipe), and then the rest does not run.
\<close>

definition print_then :: "(string \<Rightarrow> unit outcome) \<Rightarrow> string \<Rightarrow> exn + 'a \<Rightarrow> exn + 'a" where
  "print_then console line rest =
     (case console line of Returns u \<Rightarrow> rest | Raises e \<Rightarrow> Inl e)"

text \<open>
  The body of the \<open>try\<close> block of \<open>send_whatsapp_evolution\<close>, once the request is
  built: the POST, then the prints and the \<open>return\<close> of either branch. \<open>post\<close> is the
  network, from the request to what \<open>client.post\<close> gives. \<open>Inl\<close> is an exception
  raised inside the block.
\<close>

definition post_and_report ::
    "(string \<Rightarrow> unit outcome) \<Rightarrow> (request \<Rightarrow> response outcome) \<Rightarrow> request \<Rightarrow> exn + bool" where
  "post_and_report console post req =
     (case post req of
        Returns response \<Rightarrow>
          if status_code response = 201 \<or> status_code response = 200 then
            print_then console (check_mark @ '' WhatsApp enviado com sucesso'') (Inr True)
          else
            print_then console
              (cross_mark @ '' Erro ao enviar WhatsApp: '' @ str_int (status_code response))
              (print_then console (''Resposta: '' @ response_text response) (Inr False))
      | Raises e \<Rightarrow> Inl e)"

text \<open>
  \<open>send_whatsapp_evolution\<close>. The two prints of the unconfigured case stand before the
  \<open>try\<close> block, and the handler of \<open>Exception\<close> prints before it returns: what these
  prints raise leaves the function. The value pairs what the function returns (\<open>Inr\<close> of
  the boolean, or \<open>Inl\<close> of the exception that leaves it) with the requests it has posted.
\<close>

definition send_whatsapp_evolution ::
    "(string \<rightharpoonup> string) \<Rightarrow> (string \<Rightarrow> unit outcome) \<Rightarrow> (request \<Rightarrow> response outcome) \<Rightarrow> string
      \<Rightarrow> (exn + bool) \<times> request list" where
  "send_whatsapp_evolution environ console post message =
     (if EVOLUTION_API_URL environ = [] \<or> EVOLUTION_API_KEY environ = []
         \<or> WHATSAPP_PHONE environ = []
      then
        (print_then console (warning_sign @ '' WhatsApp n'' @ a_tilde @ ''o configurado'')
           (print_then console (''Mensagem que seria enviada:'' @ [CHR 0x0A] @ message)
              (Inr False)),
         [])
      else
        (let url = EVOLUTION_API_URL environ @ ''/message/sendText/'' @ EVOLUTION_INSTANCE environ;
             req = \<lparr>req_url = url,
                    payload_number = WHATSAPP_PHONE environ,
                    payload_text = message,
                    header_apikey = EVOLUTION_API_KEY environ,
                    header_content_type = ''application/json''\<rparr>
         in (case post_and_report console post req of
               Inr b \<Rightarrow> Inr b
             | Inl e \<Rightarrow>
                 if isinstance_Exception e then
                   print_then console (cross_mark @ '' Erro ao enviar WhatsApp: '' @ str e)
                     (Inr False)
                 else Inl e,
             [req])))"

text \<open>
  A delivery fails when the POST raises an exception of class \<open>Exception\<close>, or answers
  with a status code other than 200 and 201.
\<close>

definition delivery_fails :: "response outcome \<Rightarrow> bool" where
  "delivery_fails out =
     (case out of
        Returns response \<Rightarrow> status_code response \<noteq> 200 \<and> status_code response \<noteq> 201
      | Raises e \<Rightarrow> isinstance_Exception e)"

section \<open>The forced check\<close>

definition SERVICES :: "(string \<times> config) list" where
  "SERVICES =
     [(''frontend_dev'',
         \<lparr>cfg_name = ''Frontend Dev'', cfg_url = ''https://dev.julgadosbr.com.br/health'',
          cfg_interval = 60\<rparr>),
      (''frontend_prod'',
         \<lparr>cfg_name = ''Frontend Prod'', cfg_url = ''https://julgadosbr.com.br/health'',
          cfg_interval = 60\<rparr>),
      (''backend'',
         \<lparr>cfg_name = ''Backend API'', cfg_url = ''https://api.dev.julgadosbr.com.br/health'',
          cfg_interval = 60\<rparr>)]"

text \<open>
  What the handler of \<open>POST /check/{service_id}\<close> returns: a \<open>JSONResponse\<close> with its
  status code and content, or the dictionary with the keys \<open>"service"\<close> and \<open>"result"\<close>.
\<close>

datatype reply = JSONResponse int "(string \<times> string) list" | Checked string result

text \<open>
  The state of the process that a request handler runs in: the global dictionary
  \<open>service_status\<close>, and for each running \<open>monitor_service\<close> coroutine its local variables
  \<open>previous_status\<close> and \<open>consecutive_failures\<close>.
\<close>

record process =
  registry :: "string \<rightharpoonup> entry"
  monitors :: "string \<rightharpoonup> string \<times> int"

definition force_check ::
    "string \<Rightarrow> datetime \<Rightarrow> datetime \<Rightarrow> (string \<Rightarrow> response outcome) \<Rightarrow> process
      \<Rightarrow> (exn + reply) \<times> process" where
  "force_check service_id start_time end_time get p =
     (case map_of SERVICES service_id of
        None \<Rightarrow>
          (Inr (JSONResponse 404
             [(''error'', ''Servi'' @ c_cedilla @ ''o n'' @ a_tilde @ ''o encontrado'')]), p)
      | Some config \<Rightarrow>
          (case check_service service_id config start_time end_time get of
             Inl e \<Rightarrow> (Inl e, p)
           | Inr result \<Rightarrow> (Inr (Checked (cfg_name config) result), p)))"

section \<open>Properties of the monitoring loop\<close>

lemma monitor_loop_append:
  "monitor_loop sid cfg (cs @ ds) s = monitor_loop sid cfg ds (monitor_loop sid cfg cs s)"
  by (induction cs arbitrary: s) simp_all

lemma monitor_cycle_consecutive_failures:
  "consecutive_failures (monitor_cycle sid cfg c s) =
     (if status (probe c) = ''online'' then 0 else consecutive_failures s + 1)"
  by (simp add: monitor_cycle_def send_whatsapp_alert_def Let_def)

lemma monitor_cycle_previous_status:
  "previous_status (monitor_cycle sid cfg c s) = status (probe c)"
  by (simp add: monitor_cycle_def send_whatsapp_alert_def Let_def)

text \<open>
  The invariant of the loop: the count is never negative, it is positive whenever the
  previous status is not \<open>"online"\<close> and zero whenever it is, and no outage alert has been
  sent.
\<close>

lemma monitor_cycle_invariant:
  assumes "0 \<le> consecutive_failures s"
    and "previous_status s = ''online'' \<longleftrightarrow> consecutive_failures s = 0"
    and "down_alerts (alerts s) = []"
  shows "0 \<le> consecutive_failures (monitor_cycle sid cfg c s)
    \<and> (previous_status (monitor_cycle sid cfg c s) = ''online''
         \<longleftrightarrow> consecutive_failures (monitor_cycle sid cfg c s) = 0)
    \<and> down_alerts (alerts (monitor_cycle sid cfg c s)) = []"
proof (cases "status (probe c) = ''online''")
  case True
  with assms show ?thesis
    by (simp add: monitor_cycle_def send_whatsapp_alert_def Let_def down_alerts_def)
next
  case False
  from assms(1,2) have "\<not> (consecutive_failures s + 1 = 2 \<and> previous_status s = ''online'')"
    by auto
  with False assms show ?thesis
    by (auto simp add: monitor_cycle_def send_whatsapp_alert_def Let_def down_alerts_def)
qed

lemma monitor_loop_invariant:
  assumes "0 \<le> consecutive_failures s"
    and "previous_status s = ''online'' \<longleftrightarrow> consecutive_failures s = 0"
    and "down_alerts (alerts s) = []"
  shows "0 \<le> consecutive_failures (monitor_loop sid cfg cs s)
    \<and> (previous_status (monitor_loop sid cfg cs s) = ''online''
         \<longleftrightarrow> consecutive_failures (monitor_loop sid cfg cs s) = 0)
    \<and> down_alerts (alerts (monitor_loop sid cfg cs s)) = []"
  using assms
proof (induction cs arbitrary: s)
  case Nil
  then show ?case by simp
next
  case (Cons c cs)
  from monitor_cycle_invariant [OF Cons.prems, of sid cfg c]
  show ?case by (simp add: Cons.IH)
qed

lemma monitor_service_invariant:
  "0 \<le> consecutive_failures (monitor_service sid cfg reg cs)
    \<and> (previous_status (monitor_service sid cfg reg cs) = ''online''
         \<longleftrightarrow> consecutive_failures (monitor_service sid cfg reg cs) = 0)
    \<and> down_alerts (alerts (monitor_service sid cfg reg cs)) = []"
  unfolding monitor_service_def
  by (rule monitor_loop_invariant) (simp_all add: down_alerts_def)

text \<open>
  Claim C4. Whatever the results of the cycles so far, the guard of the outage alert
  (the count, once incremented, equals 2 and the previous status is \<open>"online"\<close>) is false in
  the state the next cycle starts from, and the loop has sent no outage alert.
\<close>

theorem monitor_service_never_sends_down_alert:
  "\<not> (consecutive_failures (monitor_service sid cfg reg cs) + 1 = 2
        \<and> previous_status (monitor_service sid cfg reg cs) = ''online'')
   \<and> down_alerts (alerts (monitor_service sid cfg reg cs)) = []"
  using monitor_service_invariant [of sid cfg reg cs] by auto

text \<open>
  Claim C5. A cycle whose status is \<open>"online"\<close> sets the count to 0 and any other cycle
  adds one to it; so after a run of the loop the count is 0 exactly when the last cycle's
  status was \<open>"online"\<close>.
\<close>

theorem consecutive_failures_reset_iff_online:
  "consecutive_failures (monitor_cycle sid cfg c s) =
     (if status (probe c) = ''online'' then 0 else consecutive_failures s + 1)
   \<and> (consecutive_failures (monitor_service sid cfg reg (cs @ [c])) = 0
        \<longleftrightarrow> status (probe c) = ''online'')"
proof -
  have "0 \<le> consecutive_failures (monitor_service sid cfg reg cs)"
    using monitor_service_invariant [of sid cfg reg cs] by simp
  then show ?thesis
    by (simp add: monitor_service_def monitor_loop_append monitor_cycle_consecutive_failures)
qed

text \<open>
  Claim C1. Two non-online readings in a row from the initial state: the second one is the
  second consecutive non-online reading after an \<open>"online"\<close> previous status, the case
  for which the comment above the guard announces an alert, and the loop has called
  \<open>send_whatsapp_alert\<close> neither in the first cycle nor in the second.
\<close>

theorem two_failures_send_no_alert:
  "alerts (monitor_service sid cfg reg [reading ''offline'' d1 e1 t1]) = []
   \<and> alerts (monitor_service sid cfg reg
        [reading ''offline'' d1 e1 t1, reading ''offline'' d2 e2 t2]) = []
   \<and> consecutive_failures (monitor_service sid cfg reg
        [reading ''offline'' d1 e1 t1, reading ''offline'' d2 e2 t2]) = 2"
  by (simp add: monitor_service_def monitor_cycle_def reading_def send_whatsapp_alert_def Let_def)

text \<open>
  Claim C2. After the statuses \<open>"online"\<close>, \<open>"offline"\<close>, \<open>"offline"\<close> the loop has
  sent no alert at all, and the entry of the service in \<open>service_status\<close> holds the
  status, the duration and the error text of the third cycle.
\<close>

theorem online_offline_offline_run:
  "alerts (monitor_service sid cfg reg
      [reading ''online'' d1 e1 t1, reading ''offline'' d2 e2 t2, reading ''offline'' d3 e3 t3]) = []
   \<and> service_status (monitor_service sid cfg reg
      [reading ''online'' d1 e1 t1, reading ''offline'' d2 e2 t2, reading ''offline'' d3 e3 t3]) sid =
     Some \<lparr>entry_name = cfg_name cfg, entry_url = cfg_url cfg, entry_status = ''offline'',
           last_check = t3, entry_response_time = d3, entry_error_message = e3\<rparr>"
  by (simp add: monitor_service_def monitor_cycle_def reading_def send_whatsapp_alert_def Let_def)

text \<open>
  Claim C3. After the statuses \<open>"online"\<close>, \<open>"offline"\<close>, \<open>"offline"\<close>, \<open>"online"\<close>
  the loop has sent one alert only, the recovery alert of the fourth cycle; before that
  cycle it had sent none.
\<close>

theorem online_offline_offline_online_run:
  "alerts (monitor_service sid cfg reg
      [reading ''online'' d1 e1 t1, reading ''offline'' d2 e2 t2, reading ''offline'' d3 e3 t3,
       reading ''online'' d4 e4 t4]) =
     [\<lparr>service_name = cfg_name cfg, alert_status = ''online'',
       alert_error = ''Servi'' @ c_cedilla @ ''o recuperado '' @ check_mark\<rparr>]
   \<and> down_alerts (alerts (monitor_service sid cfg reg
      [reading ''online'' d1 e1 t1, reading ''offline'' d2 e2 t2, reading ''offline'' d3 e3 t3,
       reading ''online'' d4 e4 t4])) = []"
  by (simp add: monitor_service_def monitor_cycle_def reading_def send_whatsapp_alert_def
      down_alerts_def Let_def)

text \<open>
  Claim C10. There is a run of the loop that sends a recovery alert and no outage alert:
  the statuses \<open>"online"\<close>, \<open>"offline"\<close>, \<open>"offline"\<close>, \<open>"online"\<close> give one.
\<close>

theorem recovery_alert_without_down_alert:
  "\<exists>cs. map (\<lambda>c. status (probe c)) cs = [''online'', ''offline'', ''offline'', ''online'']
     \<and> length (recovery_alerts (alerts (monitor_service sid cfg reg cs))) = 1
     \<and> down_alerts (alerts (monitor_service sid cfg reg cs)) = []"
  by (rule exI [of _ "[reading ''online'' 0 [] [], reading ''offline'' 0 [] [],
        reading ''offline'' 0 [] [], reading ''online'' 0 [] []]"])
     (simp add: monitor_service_def monitor_cycle_def reading_def send_whatsapp_alert_def
        down_alerts_def recovery_alerts_def Let_def)

section \<open>Properties of the prober\<close>

text \<open>
  Claim C6. When the request is answered, \<open>check_service\<close> returns a dictionary whose
  status is \<open>"online"\<close> exactly when the status code is 200; for any other status code
  the status is \<open>"error"\<close> and the error text is \<open>"HTTP "\<close> followed by the code.
\<close>

theorem check_service_online_iff_200:
  "get (cfg_url config) = Returns response \<Longrightarrow>
     (\<exists>r. check_service service_id config t0 t1 get = Inr r
        \<and> (status r = ''online'' \<longleftrightarrow> status_code response = 200))
     \<and> (status_code response \<noteq> 200 \<longrightarrow>
          check_service service_id config t0 t1 get =
            Inr \<lparr>status = ''error'', response_time = total_seconds (t1 - t0),
                 error_message = ''HTTP '' @ str_int (status_code response)\<rparr>)"
  by (simp add: check_service_def Let_def)

theorem check_service_online_iff_200_witness:
  "check_service ''backend''
      \<lparr>cfg_name = ''Backend API'', cfg_url = ''u'', cfg_interval = 60\<rparr> 0 2500000
      (\<lambda>u. Returns \<lparr>status_code = 404, response_text = []\<rparr>) =
     Inr \<lparr>status = ''error'', response_time = 5 / 2, error_message = ''HTTP 404''\<rparr>
   \<and> (\<exists>r. check_service ''backend''
      \<lparr>cfg_name = ''Backend API'', cfg_url = ''u'', cfg_interval = 60\<rparr> 0 2500000
      (\<lambda>u. Returns \<lparr>status_code = 201, response_text = []\<rparr>) = Inr r
        \<and> status r \<noteq> ''online'')"
  using check_service_online_iff_200
      [of "\<lambda>u. Returns \<lparr>status_code = 404, response_text = []\<rparr>"
        "\<lparr>cfg_name = ''Backend API'', cfg_url = ''u'', cfg_interval = 60\<rparr>"
        "\<lparr>status_code = 404, response_text = []\<rparr>" "''backend''" 0 2500000]
    check_service_online_iff_200
      [of "\<lambda>u. Returns \<lparr>status_code = 201, response_text = []\<rparr>"
        "\<lparr>cfg_name = ''Backend API'', cfg_url = ''u'', cfg_interval = 60\<rparr>"
        "\<lparr>status_code = 201, response_text = []\<rparr>" "''backend''" 0 2500000]
  by (simp add: str_int_def str_nat.simps total_seconds_def)

text \<open>
  What is not an instance of \<open>Exception\<close> leaves \<open>check_service\<close>: no handler names it.
\<close>

lemma check_service_BaseException_propagates:
  "get (cfg_url config) = Raises e \<Longrightarrow> \<not> isinstance_Exception e \<Longrightarrow>
     check_service service_id config t0 t1 get = Inl e"
  by (auto simp add: check_service_def isinstance_Exception_def)

text \<open>
  Claim C7. When the request raises an exception of class \<open>Exception\<close>, \<open>check_service\<close>
  returns a dictionary with status \<open>"offline"\<close>, the elapsed time, and an error text: one
  text for a timeout, another for a connection error, and \<open>"Erro: "\<close> followed by the text
  of the exception for any other. Whenever it returns a dictionary, the response time is
  the elapsed time, and an \<open>"offline"\<close> status comes with an error text that is not empty.
\<close>

theorem check_service_catches_failures:
  "(get (cfg_url config) = Raises e \<and> isinstance_Exception e \<longrightarrow>
      check_service service_id config t0 t1 get =
        Inr \<lparr>status = ''offline'', response_time = total_seconds (t1 - t0),
             error_message =
               (if class_of e = TimeoutException then
                  ''Timeout - Servi'' @ c_cedilla @ ''o n'' @ a_tilde @ ''o respondeu''
                else if class_of e = ConnectError then
                  ''Erro de conex'' @ a_tilde @ ''o - Servi'' @ c_cedilla @ ''o offline''
                else ''Erro: '' @ str e)\<rparr>)
   \<and> (check_service service_id config t0 t1 get = Inr r \<longrightarrow>
        response_time r = total_seconds (t1 - t0)
        \<and> (status r = ''offline'' \<longrightarrow> error_message r \<noteq> []))"
proof (intro conjI impI)
  assume "get (cfg_url config) = Raises e \<and> isinstance_Exception e"
  then show "check_service service_id config t0 t1 get =
        Inr \<lparr>status = ''offline'', response_time = total_seconds (t1 - t0),
             error_message =
               (if class_of e = TimeoutException then
                  ''Timeout - Servi'' @ c_cedilla @ ''o n'' @ a_tilde @ ''o respondeu''
                else if class_of e = ConnectError then
                  ''Erro de conex'' @ a_tilde @ ''o - Servi'' @ c_cedilla @ ''o offline''
                else ''Erro: '' @ str e)\<rparr>"
    by (simp add: check_service_def)
next
  assume ret: "check_service service_id config t0 t1 get = Inr r"
  show "response_time r = total_seconds (t1 - t0)"
  proof (cases "get (cfg_url config)")
    case (Returns response)
    with ret show ?thesis
      by (cases "status_code response = 200") (auto simp add: check_service_def Let_def)
  next
    case (Raises e)
    with ret show ?thesis
      by (auto simp add: check_service_def split: if_splits)
  qed
next
  assume ret: "check_service service_id config t0 t1 get = Inr r"
    and off: "status r = ''offline''"
  show "error_message r \<noteq> []"
  proof (cases "get (cfg_url config)")
    case (Returns response)
    with ret off show ?thesis
      by (cases "status_code response = 200") (auto simp add: check_service_def Let_def)
  next
    case (Raises e)
    with ret show ?thesis
      by (auto simp add: check_service_def split: if_splits)
  qed
qed


theorem check_service_catches_failures_witness:
  "check_service ''backend'' \<lparr>cfg_name = ''Backend API'', cfg_url = ''u'', cfg_interval = 60\<rparr>
     0 10000000 (\<lambda>u. Raises (Exn TimeoutException [])) =
     Inr \<lparr>status = ''offline'', response_time = 10,
          error_message = ''Timeout - Servi'' @ c_cedilla @ ''o n'' @ a_tilde @ ''o respondeu''\<rparr>
   \<and> check_service ''backend'' \<lparr>cfg_name = ''Backend API'', cfg_url = ''u'', cfg_interval = 60\<rparr>
     0 1000000 (\<lambda>u. Raises (Exn Exception ''boom'')) =
     Inr \<lparr>status = ''offline'', response_time = 1, error_message = ''Erro: boom''\<rparr>"
proof -
  let ?cfg = "\<lparr>cfg_name = ''Backend API'', cfg_url = ''u'', cfg_interval = 60\<rparr>"
  let ?r = "\<lparr>status = ''offline'', response_time = 10,
          error_message = ''Timeout - Servi'' @ c_cedilla @ ''o n'' @ a_tilde @ ''o respondeu''\<rparr>"
  let ?r' = "\<lparr>status = ''offline'', response_time = 1, error_message = ''Erro: boom''\<rparr>"
  have a: "isinstance_Exception (Exn TimeoutException [])"
    and b: "isinstance_Exception (Exn Exception ''boom'')"
    by (simp_all add: isinstance_Exception_def)
  have ten: "total_seconds (10000000 - 0) = 10" and one: "total_seconds (1000000 - 0) = 1"
    by (simp_all add: total_seconds_def)
  from check_service_catches_failures
      [of "\<lambda>u. Raises (Exn TimeoutException [])" ?cfg "Exn TimeoutException []" "''backend''"
        0 10000000 ?r] a ten
  have first: "check_service ''backend'' ?cfg 0 10000000 (\<lambda>u. Raises (Exn TimeoutException [])) = Inr ?r"
    by simp
  from check_service_catches_failures
      [of "\<lambda>u. Raises (Exn Exception ''boom'')" ?cfg "Exn Exception ''boom''" "''backend''"
        0 1000000 ?r'] b one
  have second: "check_service ''backend'' ?cfg 0 1000000 (\<lambda>u. Raises (Exn Exception ''boom'')) = Inr ?r'"
    by simp
  from first second show ?thesis by (intro conjI)
qed

section \<open>Properties of the notifier\<close>

lemma print_then_cases:
  "print_then console line rest = rest \<or> (\<exists>e. console line = Raises e \<and> print_then console line rest = Inl e)"
  by (cases "console line") (simp_all add: print_then_def)

lemma print_then_returns:
  "console line = Returns () \<Longrightarrow> print_then console line rest = rest"
  by (simp add: print_then_def)

text \<open>
  What the \<open>try\<close> block gives when the POST and the prints raise nothing but instances of
  \<open>Exception\<close>: a boolean, or an exception that the handler catches.
\<close>

lemma post_and_report_caught:
  assumes post: "\<And>e. post req = Raises e \<Longrightarrow> isinstance_Exception e"
    and console: "\<And>line e. console line = Raises e \<Longrightarrow> isinstance_Exception e"
  shows "(\<exists>b. post_and_report console post req = Inr b)
    \<or> (\<exists>e. post_and_report console post req = Inl e \<and> isinstance_Exception e)"
proof (cases "post req")
  case (Raises e)
  with post show ?thesis by (simp add: post_and_report_def)
next
  case (Returns response)
  show ?thesis
  proof (cases "status_code response = 201 \<or> status_code response = 200")
    case True
    with Returns have "post_and_report console post req =
        print_then console (check_mark @ '' WhatsApp enviado com sucesso'') (Inr True)"
      by (simp add: post_and_report_def)
    with print_then_cases [of console "check_mark @ '' WhatsApp enviado com sucesso''" "Inr True"]
      console show ?thesis by auto
  next
    case False
    let ?first = "cross_mark @ '' Erro ao enviar WhatsApp: '' @ str_int (status_code response)"
    let ?second = "''Resposta: '' @ response_text response"
    from False Returns have "post_and_report console post req =
        print_then console ?first (print_then console ?second (Inr False))"
      by (simp add: post_and_report_def)
    with print_then_cases [of console ?first "print_then console ?second (Inr False)"]
      print_then_cases [of console ?second "Inr False"]
      console show ?thesis by auto
  qed
qed

lemma post_and_report_fails:
  assumes fails: "delivery_fails (post req)"
    and console: "\<And>line e. console line = Raises e \<Longrightarrow> isinstance_Exception e"
  shows "post_and_report console post req = Inr False
    \<or> (\<exists>e. post_and_report console post req = Inl e \<and> isinstance_Exception e)"
proof (cases "post req")
  case (Raises e)
  with fails show ?thesis by (simp add: post_and_report_def delivery_fails_def)
next
  case (Returns response)
  let ?first = "cross_mark @ '' Erro ao enviar WhatsApp: '' @ str_int (status_code response)"
  let ?second = "''Resposta: '' @ response_text response"
  from fails Returns have "post_and_report console post req =
      print_then console ?first (print_then console ?second (Inr False))"
    by (simp add: post_and_report_def delivery_fails_def)
  with print_then_cases [of console ?first "print_then console ?second (Inr False)"]
    print_then_cases [of console ?second "Inr False"]
    console show ?thesis by auto
qed

lemma send_whatsapp_evolution_cases:
  obtains (unconfigured) "send_whatsapp_evolution environ console post message =
         (print_then console (warning_sign @ '' WhatsApp n'' @ a_tilde @ ''o configurado'')
           (print_then console (''Mensagem que seria enviada:'' @ [CHR 0x0A] @ message)
              (Inr False)),
          [])"
  | (posted) req where "send_whatsapp_evolution environ console post message =
         (case post_and_report console post req of
            Inr b \<Rightarrow> Inr b
          | Inl e \<Rightarrow>
              if isinstance_Exception e then
                print_then console (cross_mark @ '' Erro ao enviar WhatsApp: '' @ str e)
                  (Inr False)
              else Inl e,
          [req])"
proof (cases "EVOLUTION_API_URL environ = [] \<or> EVOLUTION_API_KEY environ = []
         \<or> WHATSAPP_PHONE environ = []")
  case True
  then have "send_whatsapp_evolution environ console post message =
         (print_then console (warning_sign @ '' WhatsApp n'' @ a_tilde @ ''o configurado'')
           (print_then console (''Mensagem que seria enviada:'' @ [CHR 0x0A] @ message)
              (Inr False)),
          [])"
    unfolding send_whatsapp_evolution_def by (simp only: if_True)
  then show thesis by (rule unconfigured)
next
  case False
  define req where "req =
    \<lparr>req_url = EVOLUTION_API_URL environ @ ''/message/sendText/'' @ EVOLUTION_INSTANCE environ,
     payload_number = WHATSAPP_PHONE environ,
     payload_text = message,
     header_apikey = EVOLUTION_API_KEY environ,
     header_content_type = ''application/json''\<rparr>"
  from False have "send_whatsapp_evolution environ console post message =
         (case post_and_report console post req of
            Inr b \<Rightarrow> Inr b
          | Inl e \<Rightarrow>
              if isinstance_Exception e then
                print_then console (cross_mark @ '' Erro ao enviar WhatsApp: '' @ str e)
                  (Inr False)
              else Inl e,
          [req])"
    unfolding send_whatsapp_evolution_def Let_def req_def by (simp only: if_False)
  then show thesis by (rule posted)
qed

lemma send_whatsapp_evolution_unconfigured:
  assumes "environ ''WHATSAPP_API_URL'' = None \<or> environ ''WHATSAPP_API_KEY'' = None
      \<or> environ ''WHATSAPP_PHONE'' = None"
  shows "send_whatsapp_evolution environ console post message =
         (print_then console (warning_sign @ '' WhatsApp n'' @ a_tilde @ ''o configurado'')
           (print_then console (''Mensagem que seria enviada:'' @ [CHR 0x0A] @ message)
              (Inr False)),
          [])"
proof -
  from assms have "EVOLUTION_API_URL environ = [] \<or> EVOLUTION_API_KEY environ = []
         \<or> WHATSAPP_PHONE environ = []"
    by (auto simp add: getenv_def EVOLUTION_API_URL_def EVOLUTION_API_KEY_def WHATSAPP_PHONE_def)
  then show ?thesis
    unfolding send_whatsapp_evolution_def by (simp only: if_True)
qed

text \<open>
  Claim C9, as stated, fails where a print raises. With no setting in the environment and a
  standard output that refuses the text, the exception of the first print leaves the
  function: no boolean is returned. With the three settings present and a POST that raises
  a connection error, the handler catches it, and the exception of the handler's own print
  leaves the function after the request has been posted.
\<close>

theorem send_whatsapp_evolution_print_raises:
  "isinstance_Exception (Exn Exception ''UnicodeEncodeError'')
   \<and> send_whatsapp_evolution Map.empty
        (\<lambda>line. Raises (Exn Exception ''UnicodeEncodeError''))
        (\<lambda>req. Raises (Exn ConnectError [])) ''alert'' =
       (Inl (Exn Exception ''UnicodeEncodeError''), [])
   \<and> send_whatsapp_evolution
        [''WHATSAPP_API_URL'' \<mapsto> ''http://evo'', ''WHATSAPP_API_KEY'' \<mapsto> ''k'',
         ''WHATSAPP_PHONE'' \<mapsto> ''5511'']
        (\<lambda>line. Raises (Exn Exception ''UnicodeEncodeError''))
        (\<lambda>req. Raises (Exn ConnectError [])) ''alert'' =
       (Inl (Exn Exception ''UnicodeEncodeError''),
        [\<lparr>req_url = ''http://evo/message/sendText/monitor-julgados-2'',
          payload_number = ''5511'', payload_text = ''alert'', header_apikey = ''k'',
          header_content_type = ''application/json''\<rparr>])"
  by (simp add: send_whatsapp_evolution_def post_and_report_def print_then_def
      isinstance_Exception_def getenv_def Let_def
      EVOLUTION_API_URL_def EVOLUTION_API_KEY_def WHATSAPP_PHONE_def EVOLUTION_INSTANCE_def)

text \<open>
  Claim C9, as the code has it. Provided the two prints of the unconfigured case return,
  \<open>send_whatsapp_evolution\<close> posts nothing and returns \<open>False\<close> when the URL, the key or
  the phone number is not set. Provided moreover that the print of the handler returns
  and that the POST and the prints raise nothing but instances of \<open>Exception\<close>, it returns
  \<open>False\<close> when the delivery fails, and it returns a boolean in every case.
\<close>

theorem send_whatsapp_evolution_returns_bool:
  "(environ ''WHATSAPP_API_URL'' = None \<or> environ ''WHATSAPP_API_KEY'' = None
      \<or> environ ''WHATSAPP_PHONE'' = None \<longrightarrow>
    console (warning_sign @ '' WhatsApp n'' @ a_tilde @ ''o configurado'') = Returns () \<longrightarrow>
    console (''Mensagem que seria enviada:'' @ [CHR 0x0A] @ message) = Returns () \<longrightarrow>
      send_whatsapp_evolution environ console post message = (Inr False, []))
   \<and> (console (warning_sign @ '' WhatsApp n'' @ a_tilde @ ''o configurado'') = Returns () \<longrightarrow>
      console (''Mensagem que seria enviada:'' @ [CHR 0x0A] @ message) = Returns () \<longrightarrow>
      (\<forall>e. console (cross_mark @ '' Erro ao enviar WhatsApp: '' @ str e) = Returns ()) \<longrightarrow>
      (\<forall>line e. console line = Raises e \<longrightarrow> isinstance_Exception e) \<longrightarrow>
        ((\<forall>req. delivery_fails (post req)) \<longrightarrow>
           fst (send_whatsapp_evolution environ console post message) = Inr False)
        \<and> ((\<forall>req e. post req = Raises e \<longrightarrow> isinstance_Exception e) \<longrightarrow>
           (\<exists>b. fst (send_whatsapp_evolution environ console post message) = Inr b)))"
proof (intro conjI impI)
  assume "environ ''WHATSAPP_API_URL'' = None \<or> environ ''WHATSAPP_API_KEY'' = None
      \<or> environ ''WHATSAPP_PHONE'' = None"
    and "console (warning_sign @ '' WhatsApp n'' @ a_tilde @ ''o configurado'') = Returns ()"
    and "console (''Mensagem que seria enviada:'' @ [CHR 0x0A] @ message) = Returns ()"
  then show "send_whatsapp_evolution environ console post message = (Inr False, [])"
    by (simp only: send_whatsapp_evolution_unconfigured print_then_returns)
next
  assume warn: "console (warning_sign @ '' WhatsApp n'' @ a_tilde @ ''o configurado'') = Returns ()"
    and would: "console (''Mensagem que seria enviada:'' @ [CHR 0x0A] @ message) = Returns ()"
    and handler: "\<forall>e. console (cross_mark @ '' Erro ao enviar WhatsApp: '' @ str e) = Returns ()"
    and console: "\<forall>line e. console line = Raises e \<longrightarrow> isinstance_Exception e"
    and fails: "\<forall>req. delivery_fails (post req)"
  show "fst (send_whatsapp_evolution environ console post message) = Inr False"
  proof (cases rule: send_whatsapp_evolution_cases
      [where environ = environ and console = console and post = post and message = message])
    case unconfigured
    with warn would show ?thesis by (simp only: print_then_returns fst_conv)
  next
    case (posted req)
    from fails have "delivery_fails (post req)" ..
    moreover from console have "\<And>line e. console line = Raises e \<Longrightarrow> isinstance_Exception e"
      by blast
    ultimately have "post_and_report console post req = Inr False
        \<or> (\<exists>e. post_and_report console post req = Inl e \<and> isinstance_Exception e)"
      by (rule post_and_report_fails)
    then show ?thesis
    proof
      assume "post_and_report console post req = Inr False"
      with posted show ?thesis by simp
    next
      assume "\<exists>e. post_and_report console post req = Inl e \<and> isinstance_Exception e"
      then obtain e where "post_and_report console post req = Inl e" and "isinstance_Exception e"
        by blast
      moreover from handler
      have "console (cross_mark @ '' Erro ao enviar WhatsApp: '' @ str e) = Returns ()" ..
      ultimately show ?thesis using posted by (simp add: print_then_returns)
    qed
  qed
next
  assume warn: "console (warning_sign @ '' WhatsApp n'' @ a_tilde @ ''o configurado'') = Returns ()"
    and would: "console (''Mensagem que seria enviada:'' @ [CHR 0x0A] @ message) = Returns ()"
    and handler: "\<forall>e. console (cross_mark @ '' Erro ao enviar WhatsApp: '' @ str e) = Returns ()"
    and console: "\<forall>line e. console line = Raises e \<longrightarrow> isinstance_Exception e"
    and caught: "\<forall>req e. post req = Raises e \<longrightarrow> isinstance_Exception e"
  show "\<exists>b. fst (send_whatsapp_evolution environ console post message) = Inr b"
  proof (cases rule: send_whatsapp_evolution_cases
      [where environ = environ and console = console and post = post and message = message])
    case unconfigured
    with warn would have "fst (send_whatsapp_evolution environ console post message) = Inr False"
      by (simp only: print_then_returns fst_conv)
    then show ?thesis ..
  next
    case (posted req)
    from caught have "\<And>e. post req = Raises e \<Longrightarrow> isinstance_Exception e" by blast
    moreover from console have "\<And>line e. console line = Raises e \<Longrightarrow> isinstance_Exception e"
      by blast
    ultimately have "(\<exists>b. post_and_report console post req = Inr b)
        \<or> (\<exists>e. post_and_report console post req = Inl e \<and> isinstance_Exception e)"
      by (rule post_and_report_caught)
    then show ?thesis
    proof
      assume "\<exists>b. post_and_report console post req = Inr b"
      then obtain b where "post_and_report console post req = Inr b" ..
      with posted have "fst (send_whatsapp_evolution environ console post message) = Inr b"
        by simp
      then show ?thesis ..
    next
      assume "\<exists>e. post_and_report console post req = Inl e \<and> isinstance_Exception e"
      then obtain e where "post_and_report console post req = Inl e" and "isinstance_Exception e"
        by blast
      moreover from handler
      have "console (cross_mark @ '' Erro ao enviar WhatsApp: '' @ str e) = Returns ()" ..
      ultimately have "fst (send_whatsapp_evolution environ console post message) = Inr False"
        using posted by (simp add: print_then_returns)
      then show ?thesis ..
    qed
  qed
qed

theorem send_whatsapp_evolution_returns_bool_witness:
  "send_whatsapp_evolution Map.empty (\<lambda>line. Returns ())
       (\<lambda>req. Raises (Exn ConnectError [])) ''alert'' = (Inr False, [])
   \<and> send_whatsapp_evolution
        [''WHATSAPP_API_URL'' \<mapsto> ''http://evo'', ''WHATSAPP_API_KEY'' \<mapsto> ''k'',
         ''WHATSAPP_PHONE'' \<mapsto> ''5511'']
        (\<lambda>line. Returns ()) (\<lambda>req. Raises (Exn ConnectError [])) ''alert'' =
       (Inr False,
        [\<lparr>req_url = ''http://evo/message/sendText/monitor-julgados-2'',
          payload_number = ''5511'', payload_text = ''alert'', header_apikey = ''k'',
          header_content_type = ''application/json''\<rparr>])
   \<and> (\<exists>b. fst (send_whatsapp_evolution
        [''WHATSAPP_API_URL'' \<mapsto> ''http://evo'', ''WHATSAPP_API_KEY'' \<mapsto> ''k'',
         ''WHATSAPP_PHONE'' \<mapsto> ''5511'']
        (\<lambda>line. Returns ())
        (\<lambda>req. Returns \<lparr>status_code = 500, response_text = ''no''\<rparr>) ''alert'') = Inr b)"
proof -
  let ?environ = "[''WHATSAPP_API_URL'' \<mapsto> ''http://evo'', ''WHATSAPP_API_KEY'' \<mapsto> ''k'',
         ''WHATSAPP_PHONE'' \<mapsto> ''5511'']"
  let ?console = "\<lambda>line :: string. (Returns () :: unit outcome)"
  let ?refused = "\<lambda>req :: request. (Raises (Exn ConnectError []) :: response outcome)"
  let ?answered = "\<lambda>req :: request. Returns \<lparr>status_code = 500, response_text = ''no''\<rparr>"
  have absent: "Map.empty ''WHATSAPP_API_URL'' = (None :: string option)
      \<or> Map.empty ''WHATSAPP_API_KEY'' = (None :: string option)
      \<or> Map.empty ''WHATSAPP_PHONE'' = (None :: string option)"
    by simp
  have warn: "?console (warning_sign @ '' WhatsApp n'' @ a_tilde @ ''o configurado'') = Returns ()"
    and would: "?console (''Mensagem que seria enviada:'' @ [CHR 0x0A] @ ''alert'') = Returns ()"
    and handler: "\<forall>e. ?console (cross_mark @ '' Erro ao enviar WhatsApp: '' @ str e) = Returns ()"
    and console: "\<forall>line e. ?console line = Raises e \<longrightarrow> isinstance_Exception e"
    by simp_all
  have fails: "\<forall>req. delivery_fails (?refused req)"
    by (simp add: delivery_fails_def isinstance_Exception_def)
  have caught: "\<forall>req e. ?answered req = Raises e \<longrightarrow> isinstance_Exception e"
    by simp
  from send_whatsapp_evolution_returns_bool [of Map.empty ?console "''alert''" ?refused]
    absent warn would
  have first: "send_whatsapp_evolution Map.empty ?console ?refused ''alert'' = (Inr False, [])"
    by blast
  from send_whatsapp_evolution_returns_bool [of ?environ ?console "''alert''" ?refused]
    warn would handler console fails
  have "fst (send_whatsapp_evolution ?environ ?console ?refused ''alert'') = Inr False"
    by blast
  moreover have "snd (send_whatsapp_evolution ?environ ?console ?refused ''alert'') =
        [\<lparr>req_url = ''http://evo/message/sendText/monitor-julgados-2'',
          payload_number = ''5511'', payload_text = ''alert'', header_apikey = ''k'',
          header_content_type = ''application/json''\<rparr>]"
    by (simp add: send_whatsapp_evolution_def getenv_def Let_def
        EVOLUTION_API_URL_def EVOLUTION_API_KEY_def WHATSAPP_PHONE_def EVOLUTION_INSTANCE_def)
  ultimately have second: "send_whatsapp_evolution ?environ ?console ?refused ''alert'' =
       (Inr False,
        [\<lparr>req_url = ''http://evo/message/sendText/monitor-julgados-2'',
          payload_number = ''5511'', payload_text = ''alert'', header_apikey = ''k'',
          header_content_type = ''application/json''\<rparr>])"
    by (simp add: prod_eq_iff)
  from send_whatsapp_evolution_returns_bool [of ?environ ?console "''alert''" ?answered]
    warn would handler console caught
  have third: "\<exists>b. fst (send_whatsapp_evolution ?environ ?console ?answered ''alert'') = Inr b"
    by blast
  from first second third show ?thesis by (intro conjI)
qed

section \<open>Properties of the forced check\<close>

text \<open>
  Claim C8. For an identifier that is not a key of \<open>SERVICES\<close>, \<open>force_check\<close> answers
  with status code 404; and for any identifier it leaves \<open>service_status\<close> and the local
  variables of every monitor as they were.
\<close>

theorem force_check_unknown_id:
  "(map_of SERVICES service_id = None \<longrightarrow>
      force_check service_id t0 t1 get p =
        (Inr (JSONResponse 404
           [(''error'', ''Servi'' @ c_cedilla @ ''o n'' @ a_tilde @ ''o encontrado'')]), p))
   \<and> snd (force_check any_id t0 t1 get p) = p"
  by (simp add: force_check_def split: option.splits sum.splits)

theorem force_check_unknown_id_witness:
  "map_of SERVICES ''database'' = None
   \<and> force_check ''database'' 0 1 (\<lambda>u. Returns \<lparr>status_code = 200, response_text = []\<rparr>)
       \<lparr>registry = Map.empty, monitors = Map.empty\<rparr> =
       (Inr (JSONResponse 404
          [(''error'', ''Servi'' @ c_cedilla @ ''o n'' @ a_tilde @ ''o encontrado'')]),
        \<lparr>registry = Map.empty, monitors = Map.empty\<rparr>)"
proof -
  have unknown: "map_of SERVICES ''database'' = None"
    by (simp add: SERVICES_def)
  from force_check_unknown_id [of "''database''" 0 1
      "\<lambda>u. Returns \<lparr>status_code = 200, response_text = []\<rparr>"
      "\<lparr>registry = Map.empty, monitors = Map.empty\<rparr>" "''database''"] unknown
  show ?thesis by blast
qed

end
